theory Spec2Isabelle
  imports Complex_Main "HOL-Library.Word"
begin

section \<open>Go values shared by the package\<close>

text \<open>
  A Go \<^verbatim>\<open>error\<close> is an interface with one method, \<^verbatim>\<open>Error() string\<close>. The package
  builds errors with \<^verbatim>\<open>fmt.Errorf("...: %w", err)\<close>, always with the wrapped error last,
  and it receives errors from the libraries it calls. An error value may carry
  structured data besides its text (an HTTP status code, say); the constructor
  \<open>StatusError\<close> keeps such a code next to the text, \<open>ErrorString\<close> is a bare text
  (\<^verbatim>\<open>errors.New\<close>), and \<open>Errorf p e\<close> is \<^verbatim>\<open>fmt.Errorf(p + "%w", e)\<close>.
\<close>

datatype error =
    ErrorString string
  | StatusError nat string
  | Errorf string error

fun Error :: "error \<Rightarrow> string" where
  "Error (ErrorString s) = s"
| "Error (StatusError code s) = s"
| "Error (Errorf p e) = p @ Error e"

type_synonym byte = "8 word"

section \<open>The Avro codec and the registry's schema (library values)\<close>

text \<open>
  \<^verbatim>\<open>goavro.Codec\<close> is a library type; the package calls two of its methods.
  \<^verbatim>\<open>BinaryFromNative(buf, datum)\<close> appends the Avro encoding of the datum to \<open>buf\<close>;
  \<^verbatim>\<open>NativeFromBinary(buf)\<close> decodes one datum from the front of \<open>buf\<close> and returns it
  with the bytes left over. Both can fail. The codec is a parameter of the model:
  a pair of functions over the type \<open>'v\<close> of native values.
\<close>

record 'v Codec =
  BinaryFromNative :: "byte list \<Rightarrow> 'v \<Rightarrow> error + byte list"
  NativeFromBinary :: "byte list \<Rightarrow> error + ('v \<times> byte list)"

text \<open>
  \<^verbatim>\<open>srclient.Schema\<close>: the registry's id, the schema text, the version under its
  subject, and the codec built from the text. The fields are named after the
  accessor methods \<^verbatim>\<open>ID()\<close>, \<^verbatim>\<open>Schema()\<close>, \<^verbatim>\<open>Version()\<close>, \<^verbatim>\<open>Codec()\<close>.
  A Go \<^verbatim>\<open>int\<close> is 64 bits wide; ids are kept as integers and narrowed where the
  code narrows them.
\<close>

record 'v srclient_Schema =
  ID :: int
  Schema :: string
  Version :: int
  Codec :: "'v Codec"

text \<open>\<^verbatim>\<open>type wrapSchema struct { *srclient.Schema }\<close>: the embedded pointer is the whole struct.\<close>

type_synonym 'v wrapSchema = "'v srclient_Schema"

section \<open>The wire codec\<close>

text \<open>
  \<^verbatim>\<open>binary.BigEndian.PutUint32(b, v)\<close> stores
  \<^verbatim>\<open>b[0] = byte(v >> 24); b[1] = byte(v >> 16); b[2] = byte(v >> 8); b[3] = byte(v)\<close>
  into the four bytes made by \<^verbatim>\<open>make([]byte, 4)\<close>.
\<close>

definition PutUint32 :: "32 word \<Rightarrow> byte list" where
  "PutUint32 v = [ucast (drop_bit 24 v), ucast (drop_bit 16 v), ucast (drop_bit 8 v), ucast v]"

text \<open>
  \<^verbatim>\<open>
  func (w wrapSchema) Encode(value interface{}) ([]byte, error) {
      payload, err := w.Schema.Codec().BinaryFromNative(nil, value)
      if err != nil {
          return nil, fmt.Errorf("failed to encode value in avro: %w", err)
      }
      schemaIDBytes := make([]byte, 4)
      binary.BigEndian.PutUint32(schemaIDBytes, uint32(w.Schema.ID()))
      // Magic 0 byte + 4 bytes of schema ID + the data bytes
      bytes := []byte{0}
      bytes = append(bytes, schemaIDBytes...)
      bytes = append(bytes, payload...)
      return bytes, nil
  }
  \<close>
  The conversion \<^verbatim>\<open>uint32(id)\<close> keeps the low 32 bits, which is \<open>word_of_int\<close>.
\<close>

definition Encode :: "'v wrapSchema \<Rightarrow> 'v \<Rightarrow> error + byte list" where
  "Encode w val =
     (case BinaryFromNative (Codec w) [] val of
        Inl err \<Rightarrow> Inl (Errorf ''failed to encode value in avro: '' err)
      | Inr payload \<Rightarrow>
          (let schemaIDBytes = PutUint32 (word_of_int (ID w));
               bytes = [0];
               bytes = bytes @ schemaIDBytes;
               bytes = bytes @ payload
           in Inr bytes))"

text \<open>
  \<^verbatim>\<open>
  func (w wrapSchema) Decode(buf []byte) (interface{}, error) {
      // TODO add the decode for tests later
      value, _, err := w.Schema.Codec().NativeFromBinary(buf)
      return value, err
  }
  \<close>
  The whole buffer goes to the codec; the bytes the codec leaves over are dropped.
\<close>

definition Decode :: "'v wrapSchema \<Rightarrow> byte list \<Rightarrow> error + 'v" where
  "Decode w buf =
     (case NativeFromBinary (Codec w) buf of
        Inl err \<Rightarrow> Inl err
      | Inr (val, rest) \<Rightarrow> Inr val)"

subsection \<open>A concrete codec: Avro \<^verbatim>\<open>boolean\<close>\<close>

text \<open>
  To run the wire codec on concrete inputs a codec is needed. Avro encodes a boolean
  as one byte, 0 or 1. The library's codec for the schema \<^verbatim>\<open>"boolean"\<close> appends that
  byte, and rejects a datum that is not a \<^verbatim>\<open>bool\<close>, naming the Go type it received;
  decoding reads one byte, fails with \<^verbatim>\<open>io.ErrShortBuffer\<close> on an empty buffer and
  with an error that names the byte on a byte other than 0 and 1. The native values
  considered are a \<^verbatim>\<open>bool\<close> and an \<^verbatim>\<open>int64\<close>.
\<close>

datatype native = NativeBool bool | NativeLong int

text \<open>\<^verbatim>\<open>%d\<close> in a format string, for an unsigned number.\<close>

fun decimal :: "nat \<Rightarrow> string" where
  "decimal n =
     (if n < 10 then [''0123456789'' ! n]
      else decimal (n div 10) @ [''0123456789'' ! (n mod 10)])"

declare decimal.simps [simp del]

definition booleanBinaryFromNative :: "byte list \<Rightarrow> native \<Rightarrow> error + byte list" where
  "booleanBinaryFromNative buf datum =
     (case datum of
        NativeBool b \<Rightarrow> Inr (buf @ [if b then 1 else 0])
      | NativeLong n \<Rightarrow>
          Inl (ErrorString ''cannot encode binary boolean: expected: Go bool; received: int64''))"

definition booleanNativeFromBinary :: "byte list \<Rightarrow> error + (native \<times> byte list)" where
  "booleanNativeFromBinary buf =
     (case buf of
        [] \<Rightarrow> Inl (ErrorString ''short buffer'')
      | b # rest \<Rightarrow>
          if b = 0 then Inr (NativeBool False, rest)
          else if b = 1 then Inr (NativeBool True, rest)
          else Inl (ErrorString
                 (''cannot decode binary boolean: expected: Go byte(0) or byte(1); received: byte(''
                  @ decimal (unat b) @ '')'')))"

definition booleanCodec :: "native Codec" where
  "booleanCodec =
     \<lparr>BinaryFromNative = booleanBinaryFromNative, NativeFromBinary = booleanNativeFromBinary\<rparr>"

definition booleanSchema :: "int \<Rightarrow> native wrapSchema" where
  "booleanSchema i = \<lparr>ID = i, Schema = ''\"boolean\"'', Version = 1, Codec = booleanCodec\<rparr>"

text \<open>The value of a byte string read as a big-endian unsigned number.\<close>

definition bigEndianValue :: "byte list \<Rightarrow> nat" where
  "bigEndianValue bs = foldl (\<lambda>a b. a * 256 + unat b) 0 bs"

section \<open>Comparing two schema texts\<close>

text \<open>
  \<^verbatim>\<open>json.Unmarshal\<close> into an \<^verbatim>\<open>interface{}\<close> stores one of six dynamic types:
  \<^verbatim>\<open>nil\<close>, \<^verbatim>\<open>bool\<close>, \<^verbatim>\<open>float64\<close>, \<^verbatim>\<open>string\<close>, \<^verbatim>\<open>[]interface{}\<close> and
  \<^verbatim>\<open>map[string]interface{}\<close>. A parsed number is a finite \<^verbatim>\<open>float64\<close>, never a NaN, and
  Go's \<^verbatim>\<open>==\<close> on such numbers is equality of their values, so a number is kept as the
  real it denotes. A Go map is kept as an association list in which the first
  binding of a key is the map's entry for that key.
\<close>

datatype json =
    JNull
  | JBool bool
  | JNumber real
  | JString string
  | JArray "json list"
  | JObject "(string \<times> json) list"

definition MapKeys :: "(string \<times> json) list \<Rightarrow> string list" where
  "MapKeys m = remdups (map fst m)"

definition MapLen :: "(string \<times> json) list \<Rightarrow> nat" where
  "MapLen m = length (MapKeys m)"

definition MapIndex :: "(string \<times> json) list \<Rightarrow> string \<Rightarrow> json option" where
  "MapIndex m k = map_of m k"

text \<open>
  \<^verbatim>\<open>reflect.DeepEqual\<close> on such values. Values of different dynamic types differ;
  \<^verbatim>\<open>bool\<close>, \<^verbatim>\<open>float64\<close> and \<^verbatim>\<open>string\<close> compare with \<^verbatim>\<open>==\<close>; two slices are equal when
  they have the same length and equal elements at every index; for two maps the
  library runs
  \<^verbatim>\<open>
      if v1.Len() != v2.Len() { return false }
      for _, k := range v1.MapKeys() {
          val1 := v1.MapIndex(k)
          val2 := v2.MapIndex(k)
          if !val1.IsValid() || !val2.IsValid() || !deepValueEqual(val1, val2, ...) {
              return false
          }
      }
      return true
  \<close>
\<close>

function deepValueEqual :: "json \<Rightarrow> json \<Rightarrow> bool" where
  "deepValueEqual JNull y = (y = JNull)"
| "deepValueEqual (JBool a) y = (case y of JBool b \<Rightarrow> a = b | _ \<Rightarrow> False)"
| "deepValueEqual (JNumber a) y = (case y of JNumber b \<Rightarrow> a = b | _ \<Rightarrow> False)"
| "deepValueEqual (JString a) y = (case y of JString b \<Rightarrow> a = b | _ \<Rightarrow> False)"
| "deepValueEqual (JArray xs) y =
     (case y of
        JArray ys \<Rightarrow>
          length xs = length ys \<and>
          list_all (\<lambda>i. deepValueEqual (xs ! i) (ys ! i)) [0 ..< length xs]
      | _ \<Rightarrow> False)"
| "deepValueEqual (JObject m1) y =
     (case y of
        JObject m2 \<Rightarrow>
          MapLen m1 = MapLen m2 \<and>
          list_all
            (\<lambda>k. case MapIndex m1 k of
                   None \<Rightarrow> False
                 | Some val1 \<Rightarrow>
                     (case MapIndex m2 k of
                        None \<Rightarrow> False
                      | Some val2 \<Rightarrow> deepValueEqual val1 val2))
            (MapKeys m1)
      | _ \<Rightarrow> False)"
  by pat_completeness auto
termination
proof (relation "measure (\<lambda>(x, y). size x)")
  show "wf (measure (\<lambda>(x, y). size x))"
    by simp
next
  fix xs ys :: "json list" and y :: json and i :: nat
  assume "i \<in> set [0 ..< length xs]"
  then have "xs ! i \<in> set xs"
    by simp
  then have "size (xs ! i) < Suc (size_list size xs)"
    by (simp add: less_Suc_eq_le size_list_estimation')
  then show "((xs ! i, ys ! i), (JArray xs, y)) \<in> measure (\<lambda>(x, y). size x)"
    by simp
next
  fix m1 :: "(string \<times> json) list" and y val1 val2 :: json and k
  assume found: "MapIndex m1 k = Some val1"
  have "map_of m k = Some v \<Longrightarrow> size v < Suc (size_list (size_prod (\<lambda>_. 0) size) m)"
    for m :: "(string \<times> json) list" and v
    by (induction m) (auto split: if_splits)
  with found show "((val1, val2), (JObject m1, y)) \<in> measure (\<lambda>(x, y). size x)"
    by (simp add: MapIndex_def)
qed

text \<open>
  testify's \<^verbatim>\<open>assert.ObjectsAreEqual(expected, actual)\<close>:
  \<^verbatim>\<open>
      if expected == nil || actual == nil { return expected == actual }
      exp, ok := expected.([]byte)
      if !ok { return reflect.DeepEqual(expected, actual) }
      ...
  \<close>
  A parsed JSON value is never a \<^verbatim>\<open>[]byte\<close>, so the rest of the function is not reached.
\<close>

definition ObjectsAreEqual :: "json \<Rightarrow> json \<Rightarrow> bool" where
  "ObjectsAreEqual expected actual =
     (if expected = JNull \<or> actual = JNull then expected = actual
      else deepValueEqual expected actual)"

text \<open>
  \<^verbatim>\<open>
  func isEqualJSON(a, b string) (bool, error) {
      var aUntyped, bUntyped interface{}
      if err := json.Unmarshal([]byte(a), &aUntyped); err != nil {
          return false, fmt.Errorf("failed to unmarshal first avro schema: %w", err)
      }
      if err := json.Unmarshal([]byte(b), &bUntyped); err != nil {
          return false, fmt.Errorf("failed to unmarshal second avro schema: %w", err)
      }
      return assert.ObjectsAreEqual(aUntyped, bUntyped), nil
  }
  \<close>
  \<^verbatim>\<open>json.Unmarshal\<close> is the standard library's parser; it is the parameter \<open>unmarshal\<close>.
\<close>

definition isEqualJSON :: "(string \<Rightarrow> error + json) \<Rightarrow> string \<Rightarrow> string \<Rightarrow> error + bool" where
  "isEqualJSON unmarshal a b =
     (case unmarshal a of
        Inl err \<Rightarrow> Inl (Errorf ''failed to unmarshal first avro schema: '' err)
      | Inr aUntyped \<Rightarrow>
          (case unmarshal b of
             Inl err \<Rightarrow> Inl (Errorf ''failed to unmarshal second avro schema: '' err)
           | Inr bUntyped \<Rightarrow> Inr (ObjectsAreEqual aUntyped bUntyped)))"

text \<open>
  \<^verbatim>\<open>
  func isNotFoundErr(err error) bool {
      return strings.HasPrefix(err.Error(), "404 Not Found")
  }
  \<close>
\<close>

definition HasPrefix :: "string \<Rightarrow> string \<Rightarrow> bool" where
  "HasPrefix s pre = (length pre \<le> length s \<and> take (length pre) s = pre)"

definition isNotFoundErr :: "error \<Rightarrow> bool" where
  "isNotFoundErr err = HasPrefix (Error err) ''404 Not Found''"

section \<open>The schema registry\<close>

subsection \<open>The client and its construction\<close>

text \<open>
  \<^verbatim>\<open>SchemaRegistryConfig\<close> is declared in another file of the package; the constructor
  reads three string fields of it.
\<close>

record SchemaRegistryConfig =
  URL :: string
  Username :: string
  Password :: string

text \<open>
  \<^verbatim>\<open>srclient.SchemaRegistryClient\<close>: the registry's address and the credentials, if any,
  that the library sends with every request. \<^verbatim>\<open>CreateSchemaRegistryClient(url)\<close> makes a
  client without credentials; \<^verbatim>\<open>SetCredentials(username, password)\<close> stores the pair.
\<close>

record SchemaRegistryClient =
  schemaRegistryURL :: string
  credentials :: "(string \<times> string) option"

definition CreateSchemaRegistryClient :: "string \<Rightarrow> SchemaRegistryClient" where
  "CreateSchemaRegistryClient url = \<lparr>schemaRegistryURL = url, credentials = None\<rparr>"

definition SetCredentials :: "string \<Rightarrow> string \<Rightarrow> SchemaRegistryClient \<Rightarrow> SchemaRegistryClient" where
  "SetCredentials username password client = client\<lparr>credentials := Some (username, password)\<rparr>"

text \<open>
  \<^verbatim>\<open>type schemaRegistry struct { backend *srclient.SchemaRegistryClient; log logger.Logger }\<close>.
  The logger is only written to: the lines it receives are events of the trace below.
\<close>

record schemaRegistry =
  backend :: SchemaRegistryClient

text \<open>
  \<^verbatim>\<open>
  func NewSchemaRegistry(cfg SchemaRegistryConfig, log logger.Logger) SchemaRegistry {
      backend := srclient.CreateSchemaRegistryClient(cfg.URL)
      if cfg.Username != "" && cfg.Password != "" {
          backend.SetCredentials(cfg.Username, cfg.Password)
      }
      return &schemaRegistry{backend, log}
  }
  \<close>
\<close>

definition NewSchemaRegistry :: "SchemaRegistryConfig \<Rightarrow> schemaRegistry" where
  "NewSchemaRegistry cfg =
     (let backend = CreateSchemaRegistryClient (URL cfg);
          backend = (if Username cfg \<noteq> [] \<and> Password cfg \<noteq> []
                     then SetCredentials (Username cfg) (Password cfg) backend
                     else backend)
      in \<lparr>backend = backend\<rparr>)"

subsection \<open>The network operations\<close>

text \<open>
  The two requests of the client are library code that talks to the remote registry.
  They are parameters of the model: each takes the client, its arguments and the state
  \<open>'w\<close> of the world outside the process, and returns its result with the new state.
  \<open>Unmarshal\<close> is the JSON parser that \<open>isEqualJSON\<close> is run with.
\<close>

datatype SchemaType = Avro | Protobuf | Json

record ('v, 'w) library =
  GetLatestSchema :: "SchemaRegistryClient \<Rightarrow> string \<Rightarrow> 'w \<Rightarrow> (error + 'v srclient_Schema) \<times> 'w"
  CreateSchema ::
    "SchemaRegistryClient \<Rightarrow> string \<Rightarrow> string \<Rightarrow> SchemaType \<Rightarrow> 'w \<Rightarrow> (error + 'v srclient_Schema) \<times> 'w"
  Unmarshal :: "string \<Rightarrow> error + json"

text \<open>What one invocation does that can be seen from outside, in order.\<close>

datatype event =
    GetLatestSchemaCall string
  | CreateSchemaCall string string SchemaType
  | Infof string

fun isCreateSchemaCall :: "event \<Rightarrow> bool" where
  "isCreateSchemaCall (CreateSchemaCall subject spec schemaType) = True"
| "isCreateSchemaCall _ = False"

definition createCalls :: "event list \<Rightarrow> nat" where
  "createCalls events = length (filter isCreateSchemaCall events)"

text \<open>\<^verbatim>\<open>'%s'\<close> in a format string: the argument between two single quotes.\<close>

definition quoted :: "string \<Rightarrow> string" where
  "quoted s = [CHR 0x27] @ s @ [CHR 0x27]"

subsection \<open>EnsureSchema\<close>

text \<open>
  \<^verbatim>\<open>
  func (s *schemaRegistry) EnsureSchema(subject, spec string) (Schema, error) {
      registeredSchema, err := s.backend.GetLatestSchema(subject)
      if err != nil && !isNotFoundErr(err) {
          return nil, fmt.Errorf("failed to read schema for subject '%s': %w", subject, err)
      }
      if err != nil && isNotFoundErr(err) {
          s.log.Infof("creating new schema for subject '%s'\n", subject)
          newSchema, err := s.backend.CreateSchema(subject, spec, srclient.Avro)
          if err != nil {
              return nil, fmt.Errorf("unable to create new schema with subject '%s': %w", subject, err)
          }
          return wrapSchema{newSchema}, nil
      }
      isEqualSchemas, errInIsEqualJSON := isEqualJSON(registeredSchema.Schema(), spec)
      if errInIsEqualJSON != nil {
          return nil, fmt.Errorf("failed to compare schama in registry with local schema: %w", errInIsEqualJSON)
      }
      if isEqualSchemas {
          s.log.Infof("using existing schema for subject '%s'\n", subject)
          return wrapSchema{registeredSchema}, nil
      }
      s.log.Infof("updating schema for subject '%s'\n", subject)
      newSchema, err := s.backend.CreateSchema(subject, spec, srclient.Avro)
      if err != nil {
          return nil, fmt.Errorf("unable to update schema with subject '%s': %w", subject, err)
      }
      return wrapSchema{newSchema}, nil
  }
  \<close>
  The result is the returned pair, the state of the world afterwards, and the events
  of the invocation.
\<close>

definition EnsureSchema ::
  "('v, 'w) library \<Rightarrow> schemaRegistry \<Rightarrow> string \<Rightarrow> string \<Rightarrow> 'w
     \<Rightarrow> (error + 'v wrapSchema) \<times> 'w \<times> event list" where
  "EnsureSchema lib s subject spec w =
     (case GetLatestSchema lib (backend s) subject w of
        (Inl err, w1) \<Rightarrow>
          if \<not> isNotFoundErr err
          then (Inl (Errorf (''failed to read schema for subject '' @ quoted subject @ '': '') err),
                w1, [GetLatestSchemaCall subject])
          else
            (case CreateSchema lib (backend s) subject spec Avro w1 of
               (Inl err', w2) \<Rightarrow>
                 (Inl (Errorf (''unable to create new schema with subject '' @ quoted subject @ '': '') err'),
                  w2,
                  [GetLatestSchemaCall subject,
                   Infof (''creating new schema for subject '' @ quoted subject @ [CHR 0x0A]),
                   CreateSchemaCall subject spec Avro])
             | (Inr newSchema, w2) \<Rightarrow>
                 (Inr newSchema, w2,
                  [GetLatestSchemaCall subject,
                   Infof (''creating new schema for subject '' @ quoted subject @ [CHR 0x0A]),
                   CreateSchemaCall subject spec Avro]))
      | (Inr registeredSchema, w1) \<Rightarrow>
          (case isEqualJSON (Unmarshal lib) (Schema registeredSchema) spec of
             Inl errInIsEqualJSON \<Rightarrow>
               (Inl (Errorf ''failed to compare schama in registry with local schema: '' errInIsEqualJSON),
                w1, [GetLatestSchemaCall subject])
           | Inr isEqualSchemas \<Rightarrow>
               if isEqualSchemas
               then (Inr registeredSchema, w1,
                     [GetLatestSchemaCall subject,
                      Infof (''using existing schema for subject '' @ quoted subject @ [CHR 0x0A])])
               else
                 (case CreateSchema lib (backend s) subject spec Avro w1 of
                    (Inl err', w2) \<Rightarrow>
                      (Inl (Errorf (''unable to update schema with subject '' @ quoted subject @ '': '') err'),
                       w2,
                       [GetLatestSchemaCall subject,
                        Infof (''updating schema for subject '' @ quoted subject @ [CHR 0x0A]),
                        CreateSchemaCall subject spec Avro])
                  | (Inr newSchema, w2) \<Rightarrow>
                      (Inr newSchema, w2,
                       [GetLatestSchemaCall subject,
                        Infof (''updating schema for subject '' @ quoted subject @ [CHR 0x0A]),
                        CreateSchemaCall subject spec Avro]))))"

section \<open>A JSON parser to run the comparison with\<close>

text \<open>
  The theorems below hold for every parser. To run \<open>isEqualJSON\<close> and \<open>EnsureSchema\<close>
  on concrete texts, this is a parser for the part of JSON that schema texts are
  written in: objects, arrays, strings without escapes, unsigned integers of at most
  15 digits, \<^verbatim>\<open>true\<close>, \<^verbatim>\<open>false\<close> and \<^verbatim>\<open>null\<close>, with white space between the tokens.
  Any other text is rejected. The first argument of the three mutually recursive
  functions bounds the number of nested calls, and the parser is started with one
  more than the length of the text; when the bound runs out the text is rejected.
  A later binding of a repeated key goes in front of an earlier one, as the later
  assignment to a Go map overwrites the earlier one.
\<close>

definition isSpace :: "char \<Rightarrow> bool" where
  "isSpace c = (c = CHR '' '' \<or> c = CHR 0x09 \<or> c = CHR 0x0A \<or> c = CHR 0x0D)"

definition skipSpace :: "string \<Rightarrow> string" where
  "skipSpace s = dropWhile isSpace s"

definition isDigit :: "char \<Rightarrow> bool" where
  "isDigit c = (48 \<le> (of_char c :: nat) \<and> (of_char c :: nat) \<le> 57)"

fun parseString :: "string \<Rightarrow> (string \<times> string) option" where
  "parseString [] = None"
| "parseString (c # cs) =
     (if c = CHR 0x22 then Some ([], cs)
      else if c = CHR 0x5C \<or> of_char c < (32 :: nat) then None
      else (case parseString cs of
              None \<Rightarrow> None
            | Some (t, rest) \<Rightarrow> Some (c # t, rest)))"

definition digitValue :: "char \<Rightarrow> nat" where
  "digitValue c = of_char c - 48"

definition parseNumber :: "string \<Rightarrow> (json \<times> string) option" where
  "parseNumber s =
     (let ds = takeWhile isDigit s; rest = dropWhile isDigit s
      in if ds = [] \<or> 15 < length ds \<or> (1 < length ds \<and> hd ds = CHR ''0'') then None
         else if rest \<noteq> [] \<and> hd rest \<in> set ''.eE'' then None
         else Some (JNumber (real (foldl (\<lambda>a d. 10 * a + digitValue d) 0 ds)), rest))"

fun parseValue :: "nat \<Rightarrow> string \<Rightarrow> (json \<times> string) option"
  and parseElements :: "nat \<Rightarrow> string \<Rightarrow> json list \<Rightarrow> (json list \<times> string) option"
  and parseMembers :: "nat \<Rightarrow> string \<Rightarrow> (string \<times> json) list \<Rightarrow> ((string \<times> json) list \<times> string) option"
where
  "parseValue 0 s = None"
| "parseValue (Suc n) s =
     (case skipSpace s of
        [] \<Rightarrow> None
      | c # cs \<Rightarrow>
          if c = CHR ''{'' then
            (case skipSpace cs of
               [] \<Rightarrow> None
             | d # ds \<Rightarrow>
                 if d = CHR ''}'' then Some (JObject [], ds)
                 else (case parseMembers n cs [] of
                         None \<Rightarrow> None
                       | Some (m, rest) \<Rightarrow> Some (JObject m, rest)))
          else if c = CHR ''['' then
            (case skipSpace cs of
               [] \<Rightarrow> None
             | d # ds \<Rightarrow>
                 if d = CHR '']'' then Some (JArray [], ds)
                 else (case parseElements n cs [] of
                         None \<Rightarrow> None
                       | Some (xs, rest) \<Rightarrow> Some (JArray xs, rest)))
          else if c = CHR 0x22 then
            (case parseString cs of
               None \<Rightarrow> None
             | Some (t, rest) \<Rightarrow> Some (JString t, rest))
          else if isDigit c then parseNumber (c # cs)
          else if take 4 (c # cs) = ''true'' then Some (JBool True, drop 4 (c # cs))
          else if take 5 (c # cs) = ''false'' then Some (JBool False, drop 5 (c # cs))
          else if take 4 (c # cs) = ''null'' then Some (JNull, drop 4 (c # cs))
          else None)"
| "parseElements 0 s acc = None"
| "parseElements (Suc n) s acc =
     (case parseValue n s of
        None \<Rightarrow> None
      | Some (x, rest) \<Rightarrow>
          (case skipSpace rest of
             [] \<Rightarrow> None
           | c # cs \<Rightarrow>
               if c = CHR '','' then parseElements n cs (acc @ [x])
               else if c = CHR '']'' then Some (acc @ [x], cs)
               else None))"
| "parseMembers 0 s acc = None"
| "parseMembers (Suc n) s acc =
     (case skipSpace s of
        [] \<Rightarrow> None
      | q # cs \<Rightarrow>
          if q \<noteq> CHR 0x22 then None
          else
            (case parseString cs of
               None \<Rightarrow> None
             | Some (k, rest) \<Rightarrow>
                 (case skipSpace rest of
                    [] \<Rightarrow> None
                  | c # rest1 \<Rightarrow>
                      if c \<noteq> CHR '':'' then None
                      else
                        (case parseValue n rest1 of
                           None \<Rightarrow> None
                         | Some (v, rest2) \<Rightarrow>
                             (case skipSpace rest2 of
                                [] \<Rightarrow> None
                              | d # rest3 \<Rightarrow>
                                  if d = CHR '','' then parseMembers n rest3 ((k, v) # acc)
                                  else if d = CHR ''}'' then Some ((k, v) # acc, rest3)
                                  else None)))))"

definition jsonUnmarshal :: "string \<Rightarrow> error + json" where
  "jsonUnmarshal s =
     (case parseValue (Suc (length s)) s of
        None \<Rightarrow> Inl (ErrorString ''invalid character or unexpected end of JSON input'')
      | Some (v, rest) \<Rightarrow>
          if skipSpace rest = [] then Inr v
          else Inl (ErrorString ''invalid character after top-level value''))"

section \<open>Structural equality, as the specification words it\<close>

text \<open>
  The specification asks for a comparison of the parsed documents that is
  field-for-field and insensitive to the order of the fields: two objects are equal
  when they have the same keys and structurally equal values under every key, two
  arrays when they have the same length and structurally equal elements at every
  position, and two scalars when they are the same scalar. This relation is written
  from those words, to be compared with \<open>ObjectsAreEqual\<close>.
\<close>

function structurallyEqual :: "json \<Rightarrow> json \<Rightarrow> bool" where
  "structurallyEqual JNull y = (y = JNull)"
| "structurallyEqual (JBool a) y = (y = JBool a)"
| "structurallyEqual (JNumber a) y = (y = JNumber a)"
| "structurallyEqual (JString a) y = (y = JString a)"
| "structurallyEqual (JArray xs) y =
     (case y of
        JArray ys \<Rightarrow> list_all2 structurallyEqual xs ys
      | _ \<Rightarrow> False)"
| "structurallyEqual (JObject m1) y =
     (case y of
        JObject m2 \<Rightarrow>
          set (map fst m1) = set (map fst m2) \<and>
          (\<forall>k \<in> set (map fst m1). structurallyEqual (the (map_of m1 k)) (the (map_of m2 k)))
      | _ \<Rightarrow> False)"
  by pat_completeness auto
termination
proof (relation "measure (\<lambda>(x, y). size x)")
  show "wf (measure (\<lambda>(x, y). size x))"
    by simp
next
  fix xs :: "json list" and x y z :: json
  assume "x \<in> set xs"
  then have "size x < Suc (size_list size xs)"
    by (simp add: less_Suc_eq_le size_list_estimation')
  then show "((x, z), (JArray xs, y)) \<in> measure (\<lambda>(x, y). size x)"
    by simp
next
  fix m1 m2 :: "(string \<times> json) list" and y :: json and k
  assume "k \<in> set (map fst m1)"
  then obtain v where v: "map_of m1 k = Some v"
    by (cases "map_of m1 k") (auto simp: map_of_eq_None_iff)
  have "map_of m k = Some v \<Longrightarrow> size v < Suc (size_list (size_prod (\<lambda>_. 0) size) m)"
    for m :: "(string \<times> json) list" and v
    by (induction m) (auto split: if_splits)
  with v show "((the (map_of m1 k), the (map_of m2 k)), (JObject m1, y)) \<in> measure (\<lambda>(x, y). size x)"
    by simp
qed

section \<open>Backends to run EnsureSchema against\<close>

subsection \<open>A fake backend with fixed answers\<close>

text \<open>
  Both requests answer with a fixed result, whatever the arguments; the state counts
  the create requests received.
\<close>

definition fixedLibrary ::
  "(error + 'v srclient_Schema) \<Rightarrow> (error + 'v srclient_Schema) \<Rightarrow> (string \<Rightarrow> error + json)
     \<Rightarrow> ('v, nat) library" where
  "fixedLibrary fetched created unmarshal =
     \<lparr>GetLatestSchema = (\<lambda>client subject w. (fetched, w)),
      CreateSchema = (\<lambda>client subject spec schemaType w. (created, Suc w)),
      Unmarshal = unmarshal\<rparr>"

subsection \<open>A fake backend for a subject that has no schema yet\<close>


subsection \<open>Two invocations in sequence\<close>


section \<open>Concrete inputs\<close>

text \<open>
  The specification's example of one schema written in two ways, compact and with
  the keys in another order and white space added, and the documents they parse to.
\<close>

definition exampleText :: string where
  "exampleText = ''{\"type\":\"record\",\"name\":\"T\",\"fields\":[{\"name\":\"a\",\"type\":\"int\"}]}''"

definition exampleTextReordered :: string where
  "exampleTextReordered =
     ''{ \"name\" : \"T\",  \"fields\": [ {\"type\":\"int\", \"name\":\"a\"} ], \"type\":\"record\" }''"

definition exampleDocument :: json where
  "exampleDocument =
     JObject [(''fields'', JArray [JObject [(''type'', JString ''int''), (''name'', JString ''a'')]]),
              (''name'', JString ''T''), (''type'', JString ''record'')]"

definition exampleDocumentReordered :: json where
  "exampleDocumentReordered =
     JObject [(''type'', JString ''record''),
              (''fields'', JArray [JObject [(''name'', JString ''a''), (''type'', JString ''int'')]]),
              (''name'', JString ''T'')]"



text \<open>A registered schema holding the compact text, and a registry handle without credentials.\<close>

definition exampleRegistered :: "native srclient_Schema" where
  "exampleRegistered = \<lparr>ID = 7, Schema = exampleText, Version = 3, Codec = booleanCodec\<rparr>"

definition exampleRegistry :: schemaRegistry where
  "exampleRegistry = NewSchemaRegistry \<lparr>URL = ''http://registry:8081'', Username = [], Password = []\<rparr>"


text \<open>
  Three errors a fetch can fail with: two that carry the status 404 and differ in
  their text, and one that carries the status 500.
\<close>

definition notFoundWithStatusLine :: error where
  "notFoundWithStatusLine = StatusError 404 ''404 Not Found: subject not found''"

definition notFoundOtherWording :: error where
  "notFoundOtherWording = StatusError 404 ''Subject not found (404)''"

definition serverError :: error where
  "serverError = StatusError 500 ''500 Internal Server Error''"

section \<open>The wire codec: what Encode writes and what Decode reads\<close>

subsection \<open>The four bytes of the schema id\<close>

lemma nat_be4:
  fixes n :: nat
  assumes "n < 4294967296"
  shows "n = (n div 16777216) * 16777216 + (n div 65536 mod 256) * 65536
           + (n div 256 mod 256) * 256 + n mod 256"
proof -
  define q1 where "q1 = n div 256"
  define q2 where "q2 = q1 div 256"
  define q3 where "q3 = q2 div 256"
  have e2: "n div 65536 = q2"
    unfolding q2_def q1_def by (simp add: div_mult2_eq [symmetric])
  have e3: "n div 16777216 = q3"
    unfolding q3_def q2_def q1_def by (simp add: div_mult2_eq [symmetric])
  have d1: "n = q1 * 256 + n mod 256"
    unfolding q1_def by simp
  have d2: "q1 = q2 * 256 + q1 mod 256"
    unfolding q2_def by simp
  have d3: "q2 = q3 * 256 + q2 mod 256"
    unfolding q3_def by simp
  have "n = q3 * 16777216 + (q2 mod 256) * 65536 + (q1 mod 256) * 256 + n mod 256"
    using d1 d2 d3 by linarith
  then show ?thesis
    unfolding e2 e3 by (simp add: q1_def)
qed

lemma unat_PutUint32_bytes:
  "unat (v::32 word) = unat (ucast (drop_bit 24 v) :: byte) * 16777216
      + unat (ucast (drop_bit 16 v) :: byte) * 65536
      + unat (ucast (drop_bit 8 v) :: byte) * 256 + unat (ucast v :: byte)"
proof -
  have bound: "unat v < 4294967296"
    using unsigned_less [of v] by simp
  have b3: "unat (ucast (drop_bit 24 v) :: byte) = unat v div 16777216"
    using bound by (simp add: unsigned_ucast_eq take_bit_eq_mod drop_bit_eq_div unat_div)
  have b2: "unat (ucast (drop_bit 16 v) :: byte) = unat v div 65536 mod 256"
    by (simp add: unsigned_ucast_eq take_bit_eq_mod drop_bit_eq_div unat_div)
  have b1: "unat (ucast (drop_bit 8 v) :: byte) = unat v div 256 mod 256"
    by (simp add: unsigned_ucast_eq take_bit_eq_mod drop_bit_eq_div unat_div)
  have b0: "unat (ucast v :: byte) = unat v mod 256"
    by (simp add: unsigned_ucast_eq take_bit_eq_mod)
  show ?thesis
    unfolding b3 b2 b1 b0 by (rule nat_be4 [OF bound])
qed

lemma bigEndianValue_PutUint32: "bigEndianValue (PutUint32 v) = unat v"
  using unat_PutUint32_bytes [of v] by (simp add: bigEndianValue_def PutUint32_def)

lemma length_PutUint32: "length (PutUint32 v) = 4"
  by (simp add: PutUint32_def)

subsection \<open>Encode\<close>

text \<open>
  Claim C3. Whenever the Avro serialisation of the value succeeds with a payload,
  \<open>Encode\<close> succeeds; byte 0 of its output is 0; bytes 1 to 4 are the schema id
  narrowed to 32 bits, most significant byte first, so that read as a big-endian
  number they give the id modulo \<open>2 ^ 32\<close>; the bytes from index 5 on are the payload;
  the output is 5 bytes longer than the payload; and under schema id 7 the first
  five bytes are \<open>00 00 00 00 07\<close>.
\<close>

theorem Encode_wire_layout:
  assumes "BinaryFromNative (Codec w) [] val = Inr payload"
  shows "\<exists>out. Encode w val = Inr out
           \<and> out ! 0 = 0
           \<and> take 4 (drop 1 out) = PutUint32 (word_of_int (ID w))
           \<and> bigEndianValue (take 4 (drop 1 out)) = nat (ID w mod 2 ^ 32)
           \<and> drop 5 out = payload
           \<and> length out = 5 + length payload
           \<and> (ID w = 7 \<longrightarrow> take 5 out = [0, 0, 0, 0, 7])"
proof -
  let ?id = "PutUint32 (word_of_int (ID w))"
  have enc: "Encode w val = Inr (0 # ?id @ payload)"
    using assms by (simp add: Encode_def)
  have v: "bigEndianValue ?id = nat (ID w mod 2 ^ 32)"
    by (simp add: bigEndianValue_PutUint32 unat_eq_nat_uint uint_word_of_int take_bit_eq_mod)
  have seven: "ID w = 7 \<Longrightarrow> take 5 (0 # ?id @ payload) = [0, 0, 0, 0, 7]"
    by (simp add: PutUint32_def)
  show ?thesis
    unfolding enc using v seven by (simp add: length_PutUint32)
qed

text \<open>The boolean codec under schema id 7, on the value \<open>true\<close>.\<close>

theorem Encode_wire_layout_witness:
  "BinaryFromNative (Codec (booleanSchema 7)) [] (NativeBool True) = Inr [1]
   \<and> Encode (booleanSchema 7) (NativeBool True) = Inr [0, 0, 0, 0, 7, 1]"
proof -
  have h: "BinaryFromNative (Codec (booleanSchema 7)) [] (NativeBool True) = Inr [1]"
    by (simp add: booleanSchema_def booleanCodec_def booleanBinaryFromNative_def)
  from Encode_wire_layout [OF h] obtain out where
    "Encode (booleanSchema 7) (NativeBool True) = Inr out" "take 5 out = [0, 0, 0, 0, 7]"
    "drop 5 out = [1]"
    by (auto simp: booleanSchema_def)
  moreover have "out = take 5 out @ drop 5 out"
    by simp
  ultimately show ?thesis
    using h by simp
qed

subsection \<open>Decode\<close>

text \<open>
  Claim C1. The round trip \<open>Decode (Encode v) = v\<close> does not hold: \<open>Encode\<close> puts the
  five-byte header in front of the payload, and \<open>Decode\<close> hands the whole buffer,
  header included, to the codec. Under the boolean codec and schema id 7 the value
  \<open>true\<close> is encoded as \<open>00 00 00 00 07 01\<close>, and decoding these bytes reads the
  marker byte as the datum and returns \<open>false\<close>.
\<close>

theorem Decode_Encode_boolean_true:
  "Encode (booleanSchema 7) (NativeBool True) = Inr [0, 0, 0, 0, 7, 1]
   \<and> Decode (booleanSchema 7) [0, 0, 0, 0, 7, 1] = Inr (NativeBool False)"
  by (simp add: Encode_def Decode_def booleanSchema_def booleanCodec_def
      booleanBinaryFromNative_def booleanNativeFromBinary_def PutUint32_def)




section \<open>The constructor\<close>

text \<open>
  Claim C9. The client that \<open>NewSchemaRegistry\<close> builds carries credentials if and only
  if the configured user name and the configured password are both non-empty, and
  then they are that pair; with either one empty the client has no credentials. The
  client's address is the configured URL.
\<close>

theorem NewSchemaRegistry_credentials:
  "credentials (backend (NewSchemaRegistry cfg)) =
     (if Username cfg \<noteq> [] \<and> Password cfg \<noteq> [] then Some (Username cfg, Password cfg) else None)
   \<and> (credentials (backend (NewSchemaRegistry cfg)) = None \<longleftrightarrow> Username cfg = [] \<or> Password cfg = [])
   \<and> schemaRegistryURL (backend (NewSchemaRegistry cfg)) = URL cfg"
  by (simp add: NewSchemaRegistry_def CreateSchemaRegistryClient_def SetCredentials_def)

theorem NewSchemaRegistry_credentials_witness:
  "credentials (backend (NewSchemaRegistry \<lparr>URL = ''http://registry:8081'', Username = ''user'', Password = ''secret''\<rparr>))
     = Some (''user'', ''secret'')
   \<and> credentials (backend (NewSchemaRegistry \<lparr>URL = ''http://registry:8081'', Username = ''user'', Password = []\<rparr>))
     = None
   \<and> credentials (backend (NewSchemaRegistry \<lparr>URL = ''http://registry:8081'', Username = [], Password = ''secret''\<rparr>))
     = None"
  using NewSchemaRegistry_credentials [of "\<lparr>URL = ''http://registry:8081'', Username = ''user'', Password = ''secret''\<rparr>"]
    NewSchemaRegistry_credentials [of "\<lparr>URL = ''http://registry:8081'', Username = ''user'', Password = []\<rparr>"]
    NewSchemaRegistry_credentials [of "\<lparr>URL = ''http://registry:8081'', Username = [], Password = ''secret''\<rparr>"]
  by simp

section \<open>The comparison of two parsed documents\<close>

subsection \<open>ObjectsAreEqual is the specification's structural equality\<close>

lemma MapKeys_set: "set (MapKeys m) = fst ` set m"
  by (simp add: MapKeys_def)

lemma MapLen_card: "MapLen m = card (fst ` set m)"
  by (simp add: MapLen_def MapKeys_def length_remdups_card_conv)

lemma MapIndex_None: "MapIndex m k = None \<longleftrightarrow> k \<notin> fst ` set m"
  by (simp add: MapIndex_def map_of_eq_None_iff)

text \<open>
  The library compares the number of keys and then looks every key of the first map
  up in the second; with equally many keys on both sides that is the same as having
  the same keys.
\<close>

lemma deepValueEqual_structurallyEqual: "deepValueEqual x y = structurallyEqual x y"
proof (induction x y rule: deepValueEqual.induct)
  case (5 xs y)
  show ?case
  proof (cases y)
    case (JArray ys)
    have "list_all (\<lambda>i. deepValueEqual (xs ! i) (ys ! i)) [0 ..< length xs]
        = (\<forall>i < length xs. structurallyEqual (xs ! i) (ys ! i))"
      using 5 [OF JArray] by (auto simp: list_all_iff)
    then show ?thesis
      using JArray by (auto simp: list_all2_conv_all_nth)
  qed simp_all
next
  case (6 m1 y)
  show ?case
  proof (cases y)
    case (JObject m2)
    have ih: "deepValueEqual v1 v2 = structurallyEqual v1 v2"
      if "k \<in> fst ` set m1" "MapIndex m1 k = Some v1" "MapIndex m2 k = Some v2" for k v1 v2
      using 6 [OF JObject _ that(2) that(3)] that(1) by (simp add: MapKeys_set)
    have deep_unfold: "deepValueEqual (JObject m1) y \<longleftrightarrow>
        card (fst ` set m1) = card (fst ` set m2) \<and>
        (\<forall>k \<in> fst ` set m1.
              (case MapIndex m1 k of None \<Rightarrow> False
               | Some val1 \<Rightarrow> (case MapIndex m2 k of None \<Rightarrow> False | Some val2 \<Rightarrow> deepValueEqual val1 val2)))"
      unfolding JObject by (simp add: MapLen_card list_all_iff MapKeys_set)
    have str_unfold: "structurallyEqual (JObject m1) y \<longleftrightarrow>
        fst ` set m1 = fst ` set m2 \<and>
        (\<forall>k \<in> fst ` set m1. structurallyEqual (the (map_of m1 k)) (the (map_of m2 k)))"
      unfolding JObject by simp
    show ?thesis
    proof
      assume "deepValueEqual (JObject m1) y"
      then have len: "card (fst ` set m1) = card (fst ` set m2)"
        and all: "\<forall>k \<in> fst ` set m1.
              (case MapIndex m1 k of None \<Rightarrow> False
               | Some val1 \<Rightarrow> (case MapIndex m2 k of None \<Rightarrow> False | Some val2 \<Rightarrow> deepValueEqual val1 val2))"
        unfolding deep_unfold by blast+
      have each: "\<exists>v1 v2. MapIndex m1 k = Some v1 \<and> MapIndex m2 k = Some v2 \<and> deepValueEqual v1 v2"
        if k: "k \<in> fst ` set m1" for k
        using bspec [OF all k] by (simp split: option.splits)
      have "k \<in> fst ` set m2" if k: "k \<in> fst ` set m1" for k
      proof -
        obtain v2 where "MapIndex m2 k = Some v2"
          using each [OF k] by blast
        then show ?thesis
          using MapIndex_None [of m2 k] by simp
      qed
      then have "fst ` set m1 \<subseteq> fst ` set m2"
        by blast
      then have keys: "fst ` set m1 = fst ` set m2"
        using len by (simp add: card_subset_eq)
      have "structurallyEqual (the (map_of m1 k)) (the (map_of m2 k))" if k: "k \<in> fst ` set m1" for k
      proof -
        obtain v1 v2 where v: "MapIndex m1 k = Some v1" "MapIndex m2 k = Some v2" "deepValueEqual v1 v2"
          using each [OF k] by blast
        then have "structurallyEqual v1 v2"
          using ih [OF k v(1) v(2)] by simp
        then show ?thesis
          using v by (simp add: MapIndex_def)
      qed
      then show "structurallyEqual (JObject m1) y"
        unfolding str_unfold using keys by blast
    next
      assume "structurallyEqual (JObject m1) y"
      then have keys: "fst ` set m1 = fst ` set m2"
        and each: "\<forall>k \<in> fst ` set m1. structurallyEqual (the (map_of m1 k)) (the (map_of m2 k))"
        unfolding str_unfold by blast+
      have "case MapIndex m1 k of None \<Rightarrow> False
            | Some val1 \<Rightarrow> (case MapIndex m2 k of None \<Rightarrow> False | Some val2 \<Rightarrow> deepValueEqual val1 val2)"
        if k: "k \<in> fst ` set m1" for k
      proof -
        obtain v1 where v1: "MapIndex m1 k = Some v1"
          using k MapIndex_None [of m1 k] by (cases "MapIndex m1 k") simp_all
        have "k \<in> fst ` set m2"
          using k keys by simp
        then obtain v2 where v2: "MapIndex m2 k = Some v2"
          using MapIndex_None [of m2 k] by (cases "MapIndex m2 k") simp_all
        have "structurallyEqual v1 v2"
          using bspec [OF each k] v1 v2 by (simp add: MapIndex_def)
        then show ?thesis
          using ih [OF k v1 v2] v1 v2 by simp
      qed
      then show "deepValueEqual (JObject m1) y"
        unfolding deep_unfold using keys by simp
    qed
  qed simp_all
qed (auto split: json.splits)

lemma ObjectsAreEqual_structurallyEqual: "ObjectsAreEqual a b = structurallyEqual a b"
  by (cases a; cases b) (simp_all add: ObjectsAreEqual_def deepValueEqual_structurallyEqual)

lemma structurallyEqual_refl: "structurallyEqual x x"
proof (induction x)
  case (JArray xs)
  then show ?case
    by (simp add: list_all2_same)
next
  case (JObject m)
  have "structurallyEqual (the (map_of m k)) (the (map_of m k))" if k: "k \<in> fst ` set m" for k
  proof -
    obtain v where v: "map_of m k = Some v"
      using k by (cases "map_of m k") (simp_all add: map_of_eq_None_iff)
    then have "(k, v) \<in> set m"
      by (rule map_of_SomeD)
    then show ?thesis
      using JObject v by simp
  qed
  then show ?case
    by simp
qed simp_all

text \<open>The order in which an object's members are written does not matter.\<close>

lemma structurallyEqual_reordered:
  assumes "distinct (map fst m)" and "distinct (map fst m')" and "set m' = set m"
  shows "structurallyEqual (JObject m) (JObject m')"
proof -
  have "map_of m' = map_of m"
    using assms by (simp add: map_of_inject_set)
  moreover have "fst ` set m' = fst ` set m"
    using assms(3) by simp
  ultimately show ?thesis
    by (simp add: structurallyEqual_refl)
qed

lemma isEqualJSON_parsed:
  assumes "unmarshal a = Inr aUntyped" and "unmarshal b = Inr bUntyped"
  shows "isEqualJSON unmarshal a b = Inr (structurallyEqual aUntyped bUntyped)"
  using assms by (simp add: isEqualJSON_def ObjectsAreEqual_structurallyEqual)

text \<open>The order of the elements of an array does matter.\<close>

lemma ObjectsAreEqual_array_order:
  "\<not> ObjectsAreEqual (JArray [JString ''a'', JString ''b'']) (JArray [JString ''b'', JString ''a''])"
  by (simp add: ObjectsAreEqual_structurallyEqual)

subsection \<open>The example texts\<close>

lemma jsonUnmarshal_exampleText: "jsonUnmarshal exampleText = Inr exampleDocument"
  by (simp add: exampleText_def exampleDocument_def jsonUnmarshal_def skipSpace_def isSpace_def isDigit_def)

lemma jsonUnmarshal_exampleTextReordered: "jsonUnmarshal exampleTextReordered = Inr exampleDocumentReordered"
  by (simp add: exampleTextReordered_def exampleDocumentReordered_def jsonUnmarshal_def skipSpace_def
      isSpace_def isDigit_def)


lemma jsonUnmarshal_rejects: "jsonUnmarshal ''this is not JSON'' = Inl (ErrorString ''invalid character or unexpected end of JSON input'')"
  by (simp add: jsonUnmarshal_def skipSpace_def isSpace_def isDigit_def)

lemma structurallyEqual_examples: "structurallyEqual exampleDocument exampleDocumentReordered"
  by (auto simp: exampleDocument_def exampleDocumentReordered_def)


lemma exampleTexts_differ: "exampleText \<noteq> exampleTextReordered"
  by (simp add: exampleText_def exampleTextReordered_def)

section \<open>EnsureSchema\<close>

subsection \<open>The two outcomes of the fetch\<close>

lemma EnsureSchema_found_equal:
  assumes "GetLatestSchema lib (backend s) subject w = (Inr registeredSchema, w1)"
    and "isEqualJSON (Unmarshal lib) (Schema registeredSchema) spec = Inr True"
  shows "EnsureSchema lib s subject spec w =
           (Inr registeredSchema, w1,
            [GetLatestSchemaCall subject,
             Infof (''using existing schema for subject '' @ quoted subject @ [CHR 0x0A])])"
  using assms by (simp add: EnsureSchema_def)

lemma EnsureSchema_fetch_error:
  assumes "GetLatestSchema lib (backend s) subject w = (Inl err, w1)"
  shows "EnsureSchema lib s subject spec w =
     (if \<not> isNotFoundErr err
      then (Inl (Errorf (''failed to read schema for subject '' @ quoted subject @ '': '') err),
            w1, [GetLatestSchemaCall subject])
      else
        (case CreateSchema lib (backend s) subject spec Avro w1 of
           (created, w2) \<Rightarrow>
             ((case created of
                 Inl err' \<Rightarrow>
                   Inl (Errorf (''unable to create new schema with subject '' @ quoted subject @ '': '') err')
               | Inr newSchema \<Rightarrow> Inr newSchema),
              w2,
              [GetLatestSchemaCall subject,
               Infof (''creating new schema for subject '' @ quoted subject @ [CHR 0x0A]),
               CreateSchemaCall subject spec Avro])))"
  using assms by (simp add: EnsureSchema_def split: prod.splits sum.splits)

subsection \<open>When the fetch fails\<close>

text \<open>
  Claim C6. If the fetch of the latest schema fails with an error that
  \<open>isNotFoundErr\<close> does not classify as not-found, \<open>EnsureSchema\<close> returns that error
  wrapped with the subject, leaves the world as the fetch left it, and its only
  event is the fetch: the create request is not made.
\<close>

theorem EnsureSchema_fetch_failure_propagates:
  assumes "GetLatestSchema lib (backend s) subject w = (Inl err, w1)"
    and "\<not> isNotFoundErr err"
  shows "EnsureSchema lib s subject spec w =
           (Inl (Errorf (''failed to read schema for subject '' @ quoted subject @ '': '') err),
            w1, [GetLatestSchemaCall subject])
       \<and> createCalls (snd (snd (EnsureSchema lib s subject spec w))) = 0"
  unfolding EnsureSchema_fetch_error [OF assms(1)] using assms(2) by (simp add: createCalls_def)

text \<open>A fetch that fails with the status 500.\<close>

theorem EnsureSchema_fetch_failure_propagates_witness:
  "\<not> isNotFoundErr serverError
   \<and> EnsureSchema (fixedLibrary (Inl serverError) (Inr exampleRegistered) jsonUnmarshal)
        exampleRegistry ''transmission-value'' exampleText 0
      = (Inl (Errorf (''failed to read schema for subject '' @ quoted ''transmission-value'' @ '': '')
                serverError),
         0, [GetLatestSchemaCall ''transmission-value''])"
proof -
  have a: "GetLatestSchema (fixedLibrary (Inl serverError) (Inr exampleRegistered) jsonUnmarshal)
      (backend exampleRegistry) ''transmission-value'' 0 = (Inl serverError, 0)"
    by (simp add: fixedLibrary_def)
  have b: "\<not> isNotFoundErr serverError"
    by (simp add: isNotFoundErr_def serverError_def HasPrefix_def)
  show ?thesis
    using EnsureSchema_fetch_failure_propagates [OF a b, of exampleText] b by simp
qed

text \<open>
  Claim C5, as the code has it. Not-found is recognised by the text of the fetch
  error and by nothing else: after a failed fetch the create request is made exactly
  when the error's text starts with \<open>404 Not Found\<close>, and two errors with the same
  text are classified alike, whatever else they carry.
\<close>

theorem EnsureSchema_not_found_by_text:
  assumes "GetLatestSchema lib (backend s) subject w = (Inl err, w1)"
  shows "createCalls (snd (snd (EnsureSchema lib s subject spec w)))
           = (if HasPrefix (Error err) ''404 Not Found'' then 1 else 0)
       \<and> (CreateSchemaCall subject spec Avro \<in> set (snd (snd (EnsureSchema lib s subject spec w)))
            \<longleftrightarrow> HasPrefix (Error err) ''404 Not Found'')
       \<and> (\<forall>err'. Error err' = Error err \<longrightarrow> isNotFoundErr err' = isNotFoundErr err)"
  unfolding EnsureSchema_fetch_error [OF assms]
  by (simp add: isNotFoundErr_def createCalls_def split: prod.splits)

text \<open>
  A fetch error with the status line in front, one without, and a bare error with the
  text of the first.
\<close>

theorem EnsureSchema_not_found_by_text_witness:
  "createCalls (snd (snd (EnsureSchema
      (fixedLibrary (Inl notFoundWithStatusLine) (Inr exampleRegistered) jsonUnmarshal)
      exampleRegistry ''transmission-value'' exampleText 0))) = 1
   \<and> createCalls (snd (snd (EnsureSchema
      (fixedLibrary (Inl serverError) (Inr exampleRegistered) jsonUnmarshal)
      exampleRegistry ''transmission-value'' exampleText 0))) = 0
   \<and> isNotFoundErr (ErrorString ''404 Not Found: subject not found'') = isNotFoundErr notFoundWithStatusLine"
proof -
  have a: "GetLatestSchema (fixedLibrary (Inl notFoundWithStatusLine) (Inr exampleRegistered) jsonUnmarshal)
      (backend exampleRegistry) ''transmission-value'' 0 = (Inl notFoundWithStatusLine, 0)"
    by (simp add: fixedLibrary_def)
  have b: "GetLatestSchema (fixedLibrary (Inl serverError) (Inr exampleRegistered) jsonUnmarshal)
      (backend exampleRegistry) ''transmission-value'' 0 = (Inl serverError, 0)"
    by (simp add: fixedLibrary_def)
  have c: "Error (ErrorString ''404 Not Found: subject not found'') = Error notFoundWithStatusLine"
    by (simp add: notFoundWithStatusLine_def)
  note t = EnsureSchema_not_found_by_text [OF a, of exampleText]
  have same: "isNotFoundErr (ErrorString ''404 Not Found: subject not found'') = isNotFoundErr notFoundWithStatusLine"
    by (rule t [THEN conjunct2, THEN conjunct2, THEN spec, THEN mp, OF c])
  have one: "createCalls (snd (snd (EnsureSchema
      (fixedLibrary (Inl notFoundWithStatusLine) (Inr exampleRegistered) jsonUnmarshal)
      exampleRegistry ''transmission-value'' exampleText 0))) = 1"
    unfolding t [THEN conjunct1] by (simp add: notFoundWithStatusLine_def HasPrefix_def)
  have zero: "createCalls (snd (snd (EnsureSchema
      (fixedLibrary (Inl serverError) (Inr exampleRegistered) jsonUnmarshal)
      exampleRegistry ''transmission-value'' exampleText 0))) = 0"
    unfolding EnsureSchema_not_found_by_text [OF b, of exampleText, THEN conjunct1]
    by (simp add: serverError_def HasPrefix_def)
  show ?thesis
    using one zero same by (intro conjI)
qed

text \<open>
  Two fetch errors with the same status code 404 and different texts: the first
  leads to a create request, the second to a failure without one.
\<close>

theorem EnsureSchema_same_status_different_branch_counterexample:
  "createCalls (snd (snd (EnsureSchema
      (fixedLibrary (Inl notFoundWithStatusLine) (Inr exampleRegistered) jsonUnmarshal)
      exampleRegistry ''transmission-value'' exampleText 0))) = 1
   \<and> createCalls (snd (snd (EnsureSchema
      (fixedLibrary (Inl notFoundOtherWording) (Inr exampleRegistered) jsonUnmarshal)
      exampleRegistry ''transmission-value'' exampleText 0))) = 0"
  by (simp add: EnsureSchema_def fixedLibrary_def isNotFoundErr_def HasPrefix_def createCalls_def
      notFoundWithStatusLine_def notFoundOtherWording_def)

text \<open>
  Claim C10. On the not-found path the caller's text goes to the create request as
  it is: whenever the fetch reports not-found and the create request succeeds,
  \<open>EnsureSchema\<close> succeeds with the created schema, for every text. After a failed
  fetch the parser plays no part in the result, and the error of the local
  comparison can only be returned after a successful fetch.
\<close>

theorem EnsureSchema_not_found_forwards_spec:
  "(GetLatestSchema lib (backend s) subject w = (Inl err, w1) \<and> isNotFoundErr err
      \<and> CreateSchema lib (backend s) subject spec Avro w1 = (Inr newSchema, w2)
     \<longrightarrow> EnsureSchema lib s subject spec w =
           (Inr newSchema, w2,
            [GetLatestSchemaCall subject,
             Infof (''creating new schema for subject '' @ quoted subject @ [CHR 0x0A]),
             CreateSchemaCall subject spec Avro]))
   \<and> (fst (GetLatestSchema lib (backend s) subject w) = Inl err
     \<longrightarrow> EnsureSchema (lib\<lparr>Unmarshal := unmarshal'\<rparr>) s subject spec w = EnsureSchema lib s subject spec w)
   \<and> (fst (EnsureSchema lib s subject spec w)
         = Inl (Errorf ''failed to compare schama in registry with local schema: '' e)
     \<longrightarrow> (\<exists>registeredSchema. fst (GetLatestSchema lib (backend s) subject w) = Inr registeredSchema))"
proof (intro conjI impI)
  assume "GetLatestSchema lib (backend s) subject w = (Inl err, w1) \<and> isNotFoundErr err
      \<and> CreateSchema lib (backend s) subject spec Avro w1 = (Inr newSchema, w2)"
  then show "EnsureSchema lib s subject spec w =
           (Inr newSchema, w2,
            [GetLatestSchemaCall subject,
             Infof (''creating new schema for subject '' @ quoted subject @ [CHR 0x0A]),
             CreateSchemaCall subject spec Avro])"
    by (simp add: EnsureSchema_fetch_error)
next
  assume "fst (GetLatestSchema lib (backend s) subject w) = Inl err"
  then obtain w1 where fetch: "GetLatestSchema lib (backend s) subject w = (Inl err, w1)"
    by (cases "GetLatestSchema lib (backend s) subject w") simp
  then have fetch': "GetLatestSchema (lib\<lparr>Unmarshal := unmarshal'\<rparr>) (backend s) subject w = (Inl err, w1)"
    by simp
  show "EnsureSchema (lib\<lparr>Unmarshal := unmarshal'\<rparr>) s subject spec w = EnsureSchema lib s subject spec w"
    unfolding EnsureSchema_fetch_error [OF fetch] EnsureSchema_fetch_error [OF fetch'] by simp
next
  assume compare: "fst (EnsureSchema lib s subject spec w)
         = Inl (Errorf ''failed to compare schama in registry with local schema: '' e)"
  obtain fetched w1 where fetch: "GetLatestSchema lib (backend s) subject w = (fetched, w1)"
    by (cases "GetLatestSchema lib (backend s) subject w")
  show "\<exists>registeredSchema. fst (GetLatestSchema lib (backend s) subject w) = Inr registeredSchema"
  proof (cases fetched)
    case (Inl err0)
    then have "fst (EnsureSchema lib s subject spec w)
         \<noteq> Inl (Errorf ''failed to compare schama in registry with local schema: '' e)"
      using fetch by (simp add: EnsureSchema_fetch_error split: prod.splits sum.splits)
    with compare show ?thesis
      by simp
  next
    case (Inr registeredSchema)
    then show ?thesis
      using fetch by simp
  qed
qed

text \<open>A text that is not JSON, registered under a subject the registry does not know.\<close>

theorem EnsureSchema_not_found_forwards_spec_witness:
  "jsonUnmarshal ''this is not JSON'' = Inl (ErrorString ''invalid character or unexpected end of JSON input'')
   \<and> EnsureSchema (fixedLibrary (Inl notFoundWithStatusLine) (Inr exampleRegistered) jsonUnmarshal)
        exampleRegistry ''transmission-value'' ''this is not JSON'' 0
     = (Inr exampleRegistered, 1,
        [GetLatestSchemaCall ''transmission-value'',
         Infof (''creating new schema for subject '' @ quoted ''transmission-value'' @ [CHR 0x0A]),
         CreateSchemaCall ''transmission-value'' ''this is not JSON'' Avro])"
proof -
  let ?lib = "fixedLibrary (Inl notFoundWithStatusLine) (Inr exampleRegistered) jsonUnmarshal"
  have a: "GetLatestSchema ?lib (backend exampleRegistry) ''transmission-value'' 0 = (Inl notFoundWithStatusLine, 0)"
    by (simp add: fixedLibrary_def)
  have b: "isNotFoundErr notFoundWithStatusLine"
    by (simp add: isNotFoundErr_def notFoundWithStatusLine_def HasPrefix_def)
  have c: "CreateSchema ?lib (backend exampleRegistry) ''transmission-value'' ''this is not JSON'' Avro 0
             = (Inr exampleRegistered, 1)"
    by (simp add: fixedLibrary_def)
  show ?thesis
    using EnsureSchema_not_found_forwards_spec
      [of ?lib exampleRegistry "''transmission-value''" 0 notFoundWithStatusLine 0
          "''this is not JSON''" exampleRegistered 1]
      a b c jsonUnmarshal_rejects
    by simp
qed

subsection \<open>When the fetch succeeds and the documents are structurally equal\<close>

text \<open>
  Claim C7. If the fetch succeeds and the registered document and the caller's text
  parse to structurally equal documents, \<open>EnsureSchema\<close> returns the fetched schema
  itself, with its id and version; the world is in the state the fetch left it in;
  and the events are the fetch and one log line: nothing is written to the registry.
\<close>

theorem EnsureSchema_existing_schema_unchanged:
  assumes "GetLatestSchema lib (backend s) subject w = (Inr registeredSchema, w1)"
    and "Unmarshal lib (Schema registeredSchema) = Inr a"
    and "Unmarshal lib spec = Inr b"
    and "structurallyEqual a b"
  shows "EnsureSchema lib s subject spec w =
           (Inr registeredSchema, w1,
            [GetLatestSchemaCall subject,
             Infof (''using existing schema for subject '' @ quoted subject @ [CHR 0x0A])])"
proof -
  have "isEqualJSON (Unmarshal lib) (Schema registeredSchema) spec = Inr True"
    using assms(2-4) by (simp add: isEqualJSON_parsed)
  then show ?thesis
    by (rule EnsureSchema_found_equal [OF assms(1)])
qed

text \<open>The example texts against a backend whose fetch finds the compact text.\<close>

theorem EnsureSchema_existing_schema_unchanged_witness:
  "EnsureSchema (fixedLibrary (Inr exampleRegistered) (Inl (ErrorString ''unused'')) jsonUnmarshal)
      exampleRegistry ''transmission-value'' exampleTextReordered 0
   = (Inr exampleRegistered, 0,
      [GetLatestSchemaCall ''transmission-value'',
       Infof (''using existing schema for subject '' @ quoted ''transmission-value'' @ [CHR 0x0A])])"
proof -
  let ?lib = "fixedLibrary (Inr exampleRegistered) (Inl (ErrorString ''unused'')) jsonUnmarshal"
  have fetch: "GetLatestSchema ?lib (backend exampleRegistry) ''transmission-value'' 0 = (Inr exampleRegistered, 0)"
    by (simp add: fixedLibrary_def)
  have a: "Unmarshal ?lib (Schema exampleRegistered) = Inr exampleDocument"
    by (simp add: fixedLibrary_def exampleRegistered_def jsonUnmarshal_exampleText)
  have b: "Unmarshal ?lib exampleTextReordered = Inr exampleDocumentReordered"
    by (simp add: fixedLibrary_def jsonUnmarshal_exampleTextReordered)
  show ?thesis
    by (rule EnsureSchema_existing_schema_unchanged [OF fetch a b structurallyEqual_examples])
qed

text \<open>
  Claim C4. For two texts that parse to structurally equal documents (the same keys
  with structurally equal values, in whatever order and with whatever white space
  they are written), the comparison answers that they are equal, and \<open>EnsureSchema\<close>
  makes no create request.
\<close>

theorem EnsureSchema_structurally_equal_no_create:
  assumes "GetLatestSchema lib (backend s) subject w = (Inr registeredSchema, w1)"
    and "Unmarshal lib (Schema registeredSchema) = Inr a"
    and "Unmarshal lib spec = Inr b"
    and "structurallyEqual a b"
  shows "isEqualJSON (Unmarshal lib) (Schema registeredSchema) spec = Inr True
       \<and> createCalls (snd (snd (EnsureSchema lib s subject spec w))) = 0
       \<and> CreateSchemaCall subject spec Avro \<notin> set (snd (snd (EnsureSchema lib s subject spec w)))"
proof -
  have eq: "isEqualJSON (Unmarshal lib) (Schema registeredSchema) spec = Inr True"
    using assms(2-4) by (simp add: isEqualJSON_parsed)
  show ?thesis
    using eq EnsureSchema_found_equal [OF assms(1) eq] by (simp add: createCalls_def)
qed

text \<open>The two example texts differ as texts and are classified as equal.\<close>

theorem EnsureSchema_structurally_equal_no_create_witness:
  "Schema exampleRegistered \<noteq> exampleTextReordered
   \<and> isEqualJSON jsonUnmarshal (Schema exampleRegistered) exampleTextReordered = Inr True
   \<and> createCalls (snd (snd (EnsureSchema
        (fixedLibrary (Inr exampleRegistered) (Inl (ErrorString ''unused'')) jsonUnmarshal)
        exampleRegistry ''transmission-value'' exampleTextReordered 0))) = 0"
proof -
  let ?lib = "fixedLibrary (Inr exampleRegistered) (Inl (ErrorString ''unused'')) jsonUnmarshal"
  have fetch: "GetLatestSchema ?lib (backend exampleRegistry) ''transmission-value'' 0 = (Inr exampleRegistered, 0)"
    by (simp add: fixedLibrary_def)
  have a: "Unmarshal ?lib (Schema exampleRegistered) = Inr exampleDocument"
    by (simp add: fixedLibrary_def exampleRegistered_def jsonUnmarshal_exampleText)
  have b: "Unmarshal ?lib exampleTextReordered = Inr exampleDocumentReordered"
    by (simp add: fixedLibrary_def jsonUnmarshal_exampleTextReordered)
  have u: "Unmarshal ?lib = jsonUnmarshal"
    by (simp add: fixedLibrary_def)
  have t: "Schema exampleRegistered = exampleText"
    by (simp add: exampleRegistered_def)
  show ?thesis
    using EnsureSchema_structurally_equal_no_create [OF fetch a b structurallyEqual_examples]
      exampleTexts_differ
    by (simp add: u t)
qed

section \<open>Two calls with the same arguments\<close>









end
